theory Spec2Isabelle
  imports Main
begin

section \<open>Constants of the verification manager\<close>

text \<open>
  The eight character statistics. The source keys them by a short name
  (\<^verbatim>\<open>att\<close>, \<^verbatim>\<open>def\<close>, ...) in the policy and by a long name (\<^verbatim>\<open>attack\<close>, ...) in the
  exaltation data, with \<^verbatim>\<open>LONG_STAT_TO_SHORT\<close> translating; both namings index
  the same eight statistics, so one enumeration serves for both.
\<close>

datatype stat = Att | Def | Spd | Dex | Vit | Wis | Hp | Mp

text \<open>\<^verbatim>\<open>Object.keys(SHORT_STAT_TO_LONG)\<close>, in the order of the object literal.\<close>

definition SHORT_STAT_KEYS :: "stat list" where
  "SHORT_STAT_KEYS = [Att, Def, Spd, Dex, Vit, Wis, Hp, Mp]"

definition NUMBER_OF_STATS :: nat where
  "NUMBER_OF_STATS = 8"

definition GUILD_ROLES :: "string list" where
  "GUILD_ROLES = [''Founder'', ''Leader'', ''Officer'', ''Member'', ''Initiate'']"

definition DISPLAY_TO_GY_HIST :: "(string \<times> string) list" where
  "DISPLAY_TO_GY_HIST = [
     (''Lost Halls'', ''Lost Halls completed''),
     (''Voids'', ''Voids completed''),
     (''Cultist Hideouts'', ''Cultist Hideouts completed''),
     (''Nests'', ''Nests completed2''),
     (''Shatters'', ''Shatters completed1''),
     (''Tomb of the Ancients'', ''Tombs completed''),
     (''Ocean Trenches'', ''Ocean Trenches completed''),
     (''Parasite Chambers'', ''Parasite chambers completed4''),
     (''Lair of Shaitans'', ''Lairs of Shaitan completed4''),
     (''Puppet Master's Encores'', ''Puppet Master's Encores completed4''),
     (''Cnidarian Reefs'', ''Cnidarian Reefs completed''),
     (''Secluded Thickets'', ''Secluded Thickets completed''),
     (''Cursed Libraries'', ''Cursed Libraries completed''),
     (''Fungal Caverns'', ''Fungal Caverns completed''),
     (''Crystal Caverns'', ''Crystal Caverns completed''),
     (''Lair of Draconis (Hard)'', ''Lairs of Draconis (hard mode) completed2''),
     (''Lair of Draconis (Easy)'', ''Lairs of Draconis (easy mode) completed1''),
     (''Mountain Temples'', ''Mountain Temples completed2''),
     (''Crawling Depths'', ''Crawling Depths completed1''),
     (''Woodland Labyrinths'', ''Woodland Labyrinths completed1''),
     (''Deadwater Docks'', ''Deadwater Docks completed1''),
     (''Ice Cave'', ''Ice Caves completed1''),
     (''Belladonna's Gardens'', ''Bella Donnas completed3''),
     (''Davy Jones' Lockers'', ''Davy Jones's Lockers completed1''),
     (''Battle of the Nexus'', ''Battle for the Nexuses completed1''),
     (''Candyland Hunting Grounds'', ''Candyland Hunting Grounds completed''),
     (''Puppet Master's Theatres'', ''Puppet Master's Theatres completed1''),
     (''Toxic Sewers'', ''Toxic Sewers completed1''),
     (''Haunted Cemetaries'', ''Haunted Cemeteries completed1''),
     (''Mad Labs'', ''Mad Labs completed1''),
     (''Abyss of Demons'', ''Abysses of Demons completed''),
     (''Manor of the Immortals'', ''Manors of the Immortals completed''),
     (''Ancient Ruins'', ''Ancient Ruins completed''),
     (''Undead Lairs'', ''Undead Lairs completed''),
     (''Sprite Worlds'', ''Sprite Worlds completed''),
     (''Snake Pits'', ''Snake Pits completed''),
     (''Cave of a Thousand Treasures'', ''Caves of a Thousand Treasures completed1''),
     (''Magic Woods'', ''Magic Woods completed''),
     (''Hives'', ''Hives completed1''),
     (''Spider Dens'', ''Spider Dens completed''),
     (''Forbidden Jungles'', ''Forbidden Jungles completed''),
     (''Forest Mazes'', ''Forest Mazes completed1''),
     (''Pirate Caves'', ''Pirate Caves completed'')]"

definition CHECK_PROFILE_ID :: string where
  "CHECK_PROFILE_ID = ''check_profile''"

definition MANUAL_VERIFY_ACCEPT_ID :: string where
  "MANUAL_VERIFY_ACCEPT_ID = ''accept_manual''"

definition MANUAL_VERIFY_DENY_ID :: string where
  "MANUAL_VERIFY_DENY_ID = ''reject_manual''"

definition MANUAL_VERIFY_MODMAIL_ID :: string where
  "MANUAL_VERIFY_MODMAIL_ID = ''modmail_manual''"

section \<open>String helpers of the host language\<close>

text \<open>
  \<^verbatim>\<open>String.prototype.toLowerCase\<close>, on the ASCII letters (in-game and guild names
  are made of ASCII letters and spaces); every other character is kept.
\<close>

definition lower_char :: "char \<Rightarrow> char" where
  "lower_char c =
     (case map_of (zip ''ABCDEFGHIJKLMNOPQRSTUVWXYZ'' ''abcdefghijklmnopqrstuvwxyz'') c of
        Some d \<Rightarrow> d
      | None \<Rightarrow> c)"

definition toLowerCase :: "string \<Rightarrow> string" where
  "toLowerCase s = map lower_char s"

definition startsWith :: "string \<Rightarrow> string \<Rightarrow> bool" where
  "startsWith s p \<longleftrightarrow> take (length p) s = p"

definition endsWith :: "string \<Rightarrow> string \<Rightarrow> bool" where
  "endsWith s p \<longleftrightarrow> length p \<le> length s \<and> drop (length s - length p) s = p"

text \<open>\<^verbatim>\<open>d.includes(code)\<close>: the code occurs in \<open>d\<close> as a contiguous run.\<close>

fun includes_str :: "string \<Rightarrow> string \<Rightarrow> bool" where
  "includes_str [] c = (c = [])"
| "includes_str (x # xs) c = (startsWith (x # xs) c \<or> includes_str xs c)"

text \<open>\<^verbatim>\<open>key.split(":")\<close>.\<close>

fun split :: "char \<Rightarrow> string \<Rightarrow> string list" where
  "split sep [] = [[]]"
| "split sep (x # xs) =
     (if x = sep then [] # split sep xs
      else (case split sep xs of
              [] \<Rightarrow> [[x]]
            | w # ws \<Rightarrow> (x # w) # ws))"

text \<open>Reading an array at an index: out of range the host language gives \<^verbatim>\<open>undefined\<close>.\<close>

definition at :: "'a list \<Rightarrow> nat \<Rightarrow> 'a option" where
  "at xs i = (if i < length xs then Some (xs ! i) else None)"

text \<open>\<^verbatim>\<open>Array.prototype.indexOf\<close>: the first position of the element, \<open>-1\<close> when absent.\<close>

fun indexOfFrom :: "'a list \<Rightarrow> 'a \<Rightarrow> int \<Rightarrow> int" where
  "indexOfFrom [] x i = - 1"
| "indexOfFrom (y # ys) x i = (if y = x then i else indexOfFrom ys x (i + 1))"

definition indexOf :: "'a list \<Rightarrow> 'a \<Rightarrow> int" where
  "indexOf xs x = indexOfFrom xs x 0"

section \<open>Data model\<close>

text \<open>
  The type declarations of the profile service's answers and of the guild document
  are outside the sources at hand; the records below list the fields that the code
  reads, at the types it uses them at, numbers being integers.
\<close>

subsection \<open>Profile data returned by the profile service\<close>

record character =
  statsMaxed :: int

record player_data =
  name :: string
  rank :: int
  fame :: int
  guild :: string
  guildRank :: string
  lastSeen :: string
  characters :: "character list"
  description :: "string list"

record gy_property =
  achievement :: string
  total :: int

record stats_character =
  stats :: "int list"

record graveyard_summary =
  properties :: "gy_property list"
  statsCharacters :: "stats_character list"

text \<open>
  Modelled from the spec: the declaration of the exaltation data is outside the
  sources at hand. The specification's exaltation record is a per-character mapping
  of stat to bonus amount; here one entry per character, whose \<open>exaltationStats\<close>
  gives the bonus of each of the eight statistics that \<^verbatim>\<open>LONG_STAT_TO_SHORT\<close> names.
\<close>

record exaltation_entry =
  exaltationStats :: "stat \<Rightarrow> int"

record exaltation_data =
  exaltations :: "exaltation_entry list"

text \<open>The part of a user document the evaluation reads: the logged counters.\<close>

record user_info =
  loggedInfo :: "(string \<times> int) list"

subsection \<open>Requirement policy\<close>

record lastSeen_req =
  ls_mustBeHidden :: bool

record guildName_req =
  gn_checkThis :: bool
  gn_name :: string

record guildRank_req =
  gr_checkThis :: bool
  gr_minRank :: string
  gr_exact :: bool

record guild_req =
  g_checkThis :: bool
  g_guildName :: guildName_req
  g_guildRank :: guildRank_req

record rank_req =
  rk_checkThis :: bool
  rk_minRank :: int

record aliveFame_req =
  af_checkThis :: bool
  af_minFame :: int

record characters_req =
  ch_checkThis :: bool
  ch_statsNeeded :: "int list"
  ch_checkPastDeaths :: bool

record exaltations_req =
  ex_checkThis :: bool
  ex_minimum :: "stat \<Rightarrow> int"
  ex_onOneChar :: bool

record graveyardSummary_req =
  gy_checkThis :: bool
  gy_useBotCompletions :: bool
  gy_botCompletions :: "(string \<times> int) list"
  gy_realmEyeCompletions :: "(string \<times> int) list"

record verif_req =
  vr_lastSeen :: lastSeen_req
  vr_rank :: rank_req
  vr_guild :: guild_req
  vr_aliveFame :: aliveFame_req
  vr_characters :: characters_req
  vr_exaltations :: exaltations_req
  vr_graveyardSummary :: graveyardSummary_req

record verification_properties =
  vp_checkRequirements :: bool
  vp_verifReq :: verif_req

text \<open>
  A section (or the guild document standing for the main section): \<open>hasGuildId\<close> is
  the test \<^verbatim>\<open>"guildId" in section\<close>.
\<close>

record section_info =
  hasGuildId :: bool
  uniqueIdentifier :: string
  isMainSection :: bool
  verifiedRoleId :: string
  manualVerificationChannelId :: string
  verificationProperties :: verification_properties

subsection \<open>Manual verification entries and the guild document\<close>

record manual_entry =
  userId :: string
  ign :: string
  manualVerifyMsgId :: string
  manualVerifyChannelId :: string
  sectionId :: string

record blacklist_entry =
  lowercaseIgn :: string
  actionId :: string

text \<open>
  The guild document: the durable manual verification entries, the sections, and the
  main section that \<open>MongoManager.getMainSection\<close> builds from it.
\<close>

record guild_doc =
  manualVerificationEntries :: "manual_entry list"
  guildSections :: "section_info list"
  getMainSection :: section_info
  blacklistedUsers :: "blacklist_entry list"

text \<open>
  A guild member: the roles held, and the names \<open>UserManager.getAllNames\<close> reads
  from the display name.
\<close>

record member =
  memberId :: string
  memberRoles :: "string list"
  getAllNames :: "string list"

subsection \<open>The outside world\<close>

text \<open>
  What the collaborators answer, fixed for one run: the guild's cached channels and
  roles, the profile service (\<open>None\<close> when a lookup fails or times out), the user
  documents of the database, the dungeon table, the names registered for a user id
  (per document, the \<open>ign\<close> of each of its \<open>rotmgNames\<close>), the ids of the members
  that can be fetched, whether a direct message can be delivered, and what starting
  a modmail thread returns.
\<close>

record env =
  guildId :: string
  cachedChannels :: "string list"
  cachedRoles :: "string list"
  getPlayerInfo :: "string \<Rightarrow> player_data option"
  getNameHistory :: "string \<Rightarrow> string list option"
  getGraveyardSummary :: "string \<Rightarrow> graveyard_summary option"
  getExaltation :: "string \<Rightarrow> exaltation_data option"
  getUserDoc :: "string \<Rightarrow> user_info list"
  getDungeonInfo :: "string \<Rightarrow> string option"
  findIdInIdNameCollection :: "string \<Rightarrow> string list list"
  guildMembers :: "string list"
  sendMsg :: bool
  startModmailWithUser :: bool

text \<open>
  \<open>GuildFgrUtilities.hasCachedChannel\<close> and \<open>hasCachedRole\<close> are outside the sources at
  hand: they are taken as membership in what the environment gives as the guild's
  channels and roles.
\<close>

definition hasCachedChannel :: "env \<Rightarrow> string \<Rightarrow> bool" where
  "hasCachedChannel e cid \<longleftrightarrow> cid \<in> set (cachedChannels e)"

definition hasCachedRole :: "env \<Rightarrow> string \<Rightarrow> bool" where
  "hasCachedRole e rid \<longleftrightarrow> rid \<in> set (cachedRoles e)"

text \<open>The auxiliary lookups an evaluation performs, in the order it performs them.\<close>

datatype lookup = GetOrCreateGuildDoc | GetGraveyardSummary | GetUserDoc | GetExaltation

subsection \<open>Evaluation result\<close>

datatype conclusion = PASS | TRY_AGAIN | MANUAL | FAIL

text \<open>
  An issue is pushed with a \<open>key\<close>, a \<open>value\<close> for the user and a \<open>log\<close> line. The two
  texts are string templates over the values recorded in \<open>info\<close>.
\<close>

datatype issue_info =
    LastSeenPublic
  | WrongGuild string string
  | WrongGuildRank string string string string
  | LowGuildRank string string string string
  | LowRank int int
  | LowAliveFame int int
  | MissingStats "(nat \<times> int) list"
  | MissingLoggedDungeons "(int \<times> int \<times> string) list"
  | GraveyardPrivate
  | MissingDungeons "(string \<times> int option) list"
  | ExaltationPrivate
  | NoCharacterMeetsExaltations
  | MissingExaltations "(stat \<times> int) list"

record issue =
  key :: string
  info :: issue_info

record req_result =
  res_name :: string
  conclusion :: conclusion
  manualIssues :: "issue list"
  fatalIssues :: "issue list"
  taIssues :: "issue list"
  orig :: player_data


section \<open>Requirement evaluation\<close>

subsection \<open>Guild rank ordering\<close>

text \<open>The loop \<^verbatim>\<open>for (let i = idx; i >= 0; i--)\<close> of \<open>isValidGuildRank\<close>.\<close>

fun scanRoles :: "string list \<Rightarrow> string \<Rightarrow> nat \<Rightarrow> bool" where
  "scanRoles roles actual 0 = (at roles 0 = Some actual)"
| "scanRoles roles actual (Suc i) = (at roles (Suc i) = Some actual \<or> scanRoles roles actual i)"

definition isValidGuildRank :: "string \<Rightarrow> string \<Rightarrow> bool" where
  "isValidGuildRank minNeeded actual =
     (if minNeeded = actual then True
      else (let idx = indexOf GUILD_ROLES minNeeded
            in if idx = - 1 then False
               else scanRoles GUILD_ROLES actual (nat idx)))"

subsection \<open>Generic and guild checks\<close>

definition initialResult :: "player_data \<Rightarrow> req_result" where
  "initialResult resp =
     \<lparr>res_name = name resp, conclusion = PASS, manualIssues = [], fatalIssues = [],
      taIssues = [], orig = resp\<rparr>"

definition checkLastSeen :: "verif_req \<Rightarrow> player_data \<Rightarrow> req_result \<Rightarrow> req_result" where
  "checkLastSeen verifReq resp result =
     (if ls_mustBeHidden (vr_lastSeen verifReq) \<and> lastSeen resp \<noteq> ''hidden''
      then result\<lparr>taIssues := taIssues result @
             [\<lparr>key = ''Last Seen Location is Not Private'', info = LastSeenPublic\<rparr>]\<rparr>
      else result)"

text \<open>
  The guild block has three exits that push a fatal issue and return at once; the
  value is the issue pushed, \<open>None\<close> when evaluation goes on.
\<close>

definition checkGuild :: "verif_req \<Rightarrow> player_data \<Rightarrow> issue option" where
  "checkGuild verifReq resp =
     (let g = vr_guild verifReq; gn = g_guildName g; gr = g_guildRank g
      in if g_checkThis g then
           (if gn_checkThis gn \<and> toLowerCase (guild resp) \<noteq> toLowerCase (gn_name gn)
            then Some \<lparr>key = ''Not In Correct Guild'',
                       info = WrongGuild (guild resp) (gn_name gn)\<rparr>
            else if gr_checkThis gr then
              (if gr_exact gr then
                 (if gr_minRank gr \<noteq> guildRank resp
                  then Some \<lparr>key = ''Not In Correct Guild'',
                             info = WrongGuildRank (guild resp) (guildRank resp) (gr_minRank gr)
                                      (gn_name gn)\<rparr>
                  else None)
               else if \<not> isValidGuildRank (gr_minRank gr) (guildRank resp)
                 then Some \<lparr>key = ''Invalid Guild Rank'',
                            info = LowGuildRank (guild resp) (guildRank resp) (gr_minRank gr)
                                     (gn_name gn)\<rparr>
                 else None)
            else None)
         else None)"

subsection \<open>Threshold checks\<close>

definition checkRank :: "verif_req \<Rightarrow> player_data \<Rightarrow> req_result \<Rightarrow> req_result" where
  "checkRank verifReq resp result =
     (if rk_checkThis (vr_rank verifReq) \<and> rank resp < rk_minRank (vr_rank verifReq)
      then result\<lparr>manualIssues := manualIssues result @
             [\<lparr>key = ''Rank Too Low'',
               info = LowRank (rank resp) (rk_minRank (vr_rank verifReq))\<rparr>]\<rparr>
      else result)"

definition checkAliveFame :: "verif_req \<Rightarrow> player_data \<Rightarrow> req_result \<Rightarrow> req_result" where
  "checkAliveFame verifReq resp result =
     (if af_checkThis (vr_aliveFame verifReq) \<and> fame resp < af_minFame (vr_aliveFame verifReq)
      then result\<lparr>manualIssues := manualIssues result @
             [\<lparr>key = ''Alive Fame Too Low'',
               info = LowAliveFame (fame resp) (af_minFame (vr_aliveFame verifReq))\<rparr>]\<rparr>
      else result)"

subsection \<open>Character statistics\<close>

text \<open>
  \<^verbatim>\<open>neededStats[i] > 0\<close>: beyond the array the read is \<^verbatim>\<open>undefined\<close> and the
  comparison false.
\<close>

definition needs :: "int list \<Rightarrow> nat \<Rightarrow> bool" where
  "needs neededStats i \<longleftrightarrow> (case at neededStats i of Some n \<Rightarrow> n > 0 | None \<Rightarrow> False)"

definition decrease :: "int list \<Rightarrow> nat \<Rightarrow> int \<Rightarrow> int list" where
  "decrease neededStats i d = neededStats[i := neededStats ! i - d]"

text \<open>
  \<^verbatim>\<open>for (let j = i - 1; j >= 0; j--) if (neededStats[j] > 0) { neededStats[j] -= d; break; }\<close>,
  the second argument being \<open>i\<close>.
\<close>

fun scanDown :: "int list \<Rightarrow> nat \<Rightarrow> int \<Rightarrow> int list" where
  "scanDown neededStats 0 d = neededStats"
| "scanDown neededStats (Suc j) d =
     (if needs neededStats j then decrease neededStats j d else scanDown neededStats j d)"

definition fulfil :: "int list \<Rightarrow> nat \<Rightarrow> int \<Rightarrow> int list" where
  "fulfil neededStats i d =
     (if needs neededStats i then decrease neededStats i d else scanDown neededStats i d)"

text \<open>One row of graveyard statistics, \<^verbatim>\<open>for (let i = 0; i < statInfo.length; i++)\<close>.\<close>

fun pastDeathsRow :: "int list \<Rightarrow> nat \<Rightarrow> int list \<Rightarrow> int list" where
  "pastDeathsRow neededStats i [] = neededStats"
| "pastDeathsRow neededStats i (d # ds) = pastDeathsRow (fulfil neededStats i d) (Suc i) ds"

definition pastDeaths :: "int list \<Rightarrow> int list list \<Rightarrow> int list" where
  "pastDeaths neededStats rows = foldl (\<lambda>ns row. pastDeathsRow ns 0 row) neededStats rows"

text \<open>
  One character of the loop over \<^verbatim>\<open>resp.characters.filter(x => x.statsMaxed !== -1)\<close>. A
  negative \<open>statsMaxed\<close> reads \<^verbatim>\<open>undefined\<close> and starts the downward scan below zero:
  nothing changes.
\<close>

definition characterStep :: "int list \<Rightarrow> character \<Rightarrow> int list" where
  "characterStep neededStats c =
     (if statsMaxed c < 0 then neededStats else fulfil neededStats (nat (statsMaxed c)) 1)"

definition matchCharacters :: "int list \<Rightarrow> character list \<Rightarrow> int list" where
  "matchCharacters neededStats cs =
     foldl characterStep neededStats (filter (\<lambda>x. statsMaxed x \<noteq> - 1) cs)"

definition missingStats :: "int list \<Rightarrow> (nat \<times> int) list" where
  "missingStats neededStats =
     map (\<lambda>i. (i, neededStats ! i)) (filter (\<lambda>i. \<not> neededStats ! i \<le> 0) [0..<length neededStats])"

definition remainingStats :: "characters_req \<Rightarrow> player_data \<Rightarrow> graveyard_summary option \<Rightarrow> int list" where
  "remainingStats c resp gyHist =
     (let neededStats = ch_statsNeeded c;
          neededStats' =
            (case gyHist of
               Some gy \<Rightarrow>
                 if ch_checkPastDeaths c
                 then pastDeaths neededStats (map stats (statsCharacters gy))
                 else neededStats
             | None \<Rightarrow> neededStats)
      in matchCharacters neededStats' (characters resp))"

definition checkCharacters ::
  "verif_req \<Rightarrow> player_data \<Rightarrow> graveyard_summary option \<Rightarrow> req_result \<Rightarrow> req_result" where
  "checkCharacters verifReq resp gyHist result =
     (if ch_checkThis (vr_characters verifReq) then
        (let neededStats = remainingStats (vr_characters verifReq) resp gyHist
         in if list_ex (\<lambda>x. x > 0) neededStats
            then result\<lparr>manualIssues := manualIssues result @
                   [\<lparr>key = ''Stats Requirement Not Fulfilled'',
                     info = MissingStats (missingStats neededStats)\<rparr>]\<rparr>
            else result)
      else result)"

subsection \<open>Dungeon completions\<close>

text \<open>\<^verbatim>\<open>Collection.set\<close>: replace the value of a present key in place, else append.\<close>

fun collectionSet :: "('k \<times> 'v) list \<Rightarrow> 'k \<Rightarrow> 'v \<Rightarrow> ('k \<times> 'v) list" where
  "collectionSet [] k v = [(k, v)]"
| "collectionSet (p # ps) k v = (if fst p = k then (k, v) # ps else p # collectionSet ps k v)"

text \<open>
  \<open>LoggerManager.getCompletedDungeons\<close>. The dungeon id is the third component of the
  key; a key with fewer components gives \<^verbatim>\<open>undefined\<close>, here \<open>None\<close>.
\<close>

definition getCompletedDungeons :: "user_info \<Rightarrow> string \<Rightarrow> (string option \<times> int) list" where
  "getCompletedDungeons memberDoc gid =
     (let data = filter (\<lambda>x. startsWith (fst x) (''R:'' @ gid) \<and> endsWith (fst x) ''1'')
                   (loggedInfo memberDoc)
      in foldl (\<lambda>res dgn. collectionSet res (at (split CHR '':'' (fst dgn)) 2) (snd dgn)) [] data)"

text \<open>
  One logged dungeon of the loop over \<open>loggedInfo\<close>; the state is \<open>completionsNeeded\<close>,
  \<open>allPassed\<close> and the issue lines. An \<^verbatim>\<open>undefined\<close> id is no key of
  \<open>completionsNeeded\<close>, so whatever the dungeon table answers, nothing changes.
\<close>

definition botStep ::
  "env \<Rightarrow> (string \<rightharpoonup> int) \<times> bool \<times> (int \<times> int \<times> string) list \<Rightarrow> string option \<times> int
     \<Rightarrow> (string \<rightharpoonup> int) \<times> bool \<times> (int \<times> int \<times> string) list" where
  "botStep e st entry =
     (case st of (completionsNeeded, allPassed, issues) \<Rightarrow>
        (case fst entry of
           None \<Rightarrow> st
         | Some dgnId \<Rightarrow>
             (case getDungeonInfo e dgnId of
                None \<Rightarrow> st
              | Some dungeonName \<Rightarrow>
                  (case completionsNeeded dgnId of
                     None \<Rightarrow> st
                   | Some needed \<Rightarrow>
                       (let newAmt = needed - snd entry
                        in if newAmt \<le> 0
                           then (completionsNeeded(dgnId := None), allPassed, issues)
                           else (completionsNeeded, False,
                                 issues @ [(newAmt, needed, dungeonName)]))))))"

definition realmEyeStep ::
  "graveyard_summary \<Rightarrow> (string \<times> int option) list \<Rightarrow> string \<times> int \<Rightarrow> (string \<times> int option) list" where
  "realmEyeStep gyHist issues gyStat =
     (case map_of DISPLAY_TO_GY_HIST (fst gyStat) of
        None \<Rightarrow> issues
      | Some gyHistKey \<Rightarrow>
          (case find (\<lambda>x. achievement x = gyHistKey) (properties gyHist) of
             None \<Rightarrow> issues @ [(fst gyStat, None)]
           | Some data \<Rightarrow>
               if snd gyStat > total data
               then issues @ [(fst gyStat, Some (total data))]
               else issues))"

definition checkGraveyard ::
  "env \<Rightarrow> verif_req \<Rightarrow> player_data \<Rightarrow> graveyard_summary option
     \<Rightarrow> req_result \<times> lookup list \<Rightarrow> req_result \<times> lookup list" where
  "checkGraveyard e verifReq resp gyHist st =
     (case st of (result, lookups) \<Rightarrow>
        (let g = vr_graveyardSummary verifReq
         in if gy_checkThis g then
              (if gy_useBotCompletions g then
                 (let userDoc = getUserDoc e (name resp);
                      logged = (case userDoc of
                                  [] \<Rightarrow> []
                                | d # _ \<Rightarrow> getCompletedDungeons d (guildId e));
                      final = foldl (botStep e) (map_of (rev (gy_botCompletions g)), True, []) logged
                  in (if \<not> fst (snd final)
                      then result\<lparr>manualIssues := manualIssues result @
                             [\<lparr>key = ''Dungeon Completion Requirement Not Fulfilled'',
                               info = MissingLoggedDungeons (snd (snd final))\<rparr>]\<rparr>
                      else result,
                      lookups @ [GetUserDoc]))
               else
                 (case gyHist of
                    None \<Rightarrow>
                      (result\<lparr>taIssues := taIssues result @
                         [\<lparr>key = ''Graveyard History Private'', info = GraveyardPrivate\<rparr>]\<rparr>,
                       lookups)
                  | Some gy \<Rightarrow>
                      (let issues = foldl (realmEyeStep gy) [] (gy_realmEyeCompletions g)
                       in (if issues \<noteq> []
                           then result\<lparr>manualIssues := manualIssues result @
                                  [\<lparr>key = ''Dungeon Completion Requirement Not Fulfilled'',
                                    info = MissingDungeons issues\<rparr>]\<rparr>
                           else result,
                           lookups))))
            else st))"

subsection \<open>Exaltations\<close>

text \<open>
  The inner loop of the \<open>onOneChar\<close> mode: \<open>passed\<close> stays true when no statistic of
  the entry leaves a positive remainder.
\<close>

definition entryPasses :: "(stat \<Rightarrow> int) \<Rightarrow> exaltation_entry \<Rightarrow> bool" where
  "entryPasses neededExalt entry \<longleftrightarrow>
     list_all (\<lambda>s. \<not> neededExalt s - exaltationStats entry s > 0) SHORT_STAT_KEYS"

fun onOneCharLoop :: "(stat \<Rightarrow> int) \<Rightarrow> exaltation_entry list \<Rightarrow> stat \<Rightarrow> int" where
  "onOneCharLoop neededExalt [] = neededExalt"
| "onOneCharLoop neededExalt (entry # rest) =
     (if entryPasses neededExalt entry then (\<lambda>k. 0) else onOneCharLoop neededExalt rest)"

definition sumLoop :: "(stat \<Rightarrow> int) \<Rightarrow> exaltation_entry list \<Rightarrow> stat \<Rightarrow> int" where
  "sumLoop neededExalt entries =
     foldl (\<lambda>needed entry. (\<lambda>s. needed s - exaltationStats entry s)) neededExalt entries"

definition remainingExalt :: "exaltations_req \<Rightarrow> exaltation_data \<Rightarrow> stat \<Rightarrow> int" where
  "remainingExalt ex exaltData =
     (if ex_onOneChar ex
      then onOneCharLoop (ex_minimum ex) (exaltations exaltData)
      else sumLoop (ex_minimum ex) (exaltations exaltData))"

definition notMetExaltations :: "exaltations_req \<Rightarrow> exaltation_data \<Rightarrow> stat list" where
  "notMetExaltations ex exaltData =
     filter (\<lambda>x. remainingExalt ex exaltData x > 0) SHORT_STAT_KEYS"

definition checkExaltations ::
  "env \<Rightarrow> verif_req \<Rightarrow> player_data \<Rightarrow> req_result \<times> lookup list \<Rightarrow> req_result \<times> lookup list" where
  "checkExaltations e verifReq resp st =
     (case st of (result, lookups) \<Rightarrow>
        (let ex = vr_exaltations verifReq
         in if ex_checkThis ex then
              (case getExaltation e (name resp) of
                 None \<Rightarrow>
                   (result\<lparr>taIssues := taIssues result @
                      [\<lparr>key = ''Exaltation Information Private'', info = ExaltationPrivate\<rparr>]\<rparr>,
                    lookups @ [GetExaltation])
               | Some exaltData \<Rightarrow>
                   (let notMet = notMetExaltations ex exaltData
                    in (if notMet \<noteq> []
                        then result\<lparr>manualIssues := manualIssues result @
                               [\<lparr>key = ''Exaltation Requirement Not Satisfied'',
                                 info = (if ex_onOneChar ex then NoCharacterMeetsExaltations
                                         else MissingExaltations
                                                (map (\<lambda>s. (s, remainingExalt ex exaltData s)) notMet))\<rparr>]\<rparr>
                        else result,
                        lookups @ [GetExaltation])))
            else st))"

subsection \<open>Verdict\<close>

definition assess :: "req_result \<Rightarrow> req_result" where
  "assess result =
     (if fatalIssues result \<noteq> [] then result\<lparr>conclusion := FAIL\<rparr>
      else if taIssues result \<noteq> [] then result\<lparr>conclusion := TRY_AGAIN\<rparr>
      else if manualIssues result \<noteq> [] then result\<lparr>conclusion := MANUAL\<rparr>
      else result\<lparr>conclusion := PASS\<rparr>)"

definition downgrade :: "env \<Rightarrow> section_info \<Rightarrow> req_result \<Rightarrow> req_result" where
  "downgrade e section result =
     (if conclusion result = MANUAL
         \<and> \<not> hasCachedChannel e (manualVerificationChannelId section)
      then result\<lparr>conclusion := FAIL\<rparr>
      else result)"

subsection \<open>The evaluator\<close>

text \<open>
  \<open>checkRequirements\<close>: the result together with the lookups made, in order. The
  guild document is fetched when the section given is not itself the guild document;
  the graveyard summary is fetched once the guild block is passed.
\<close>

definition checkRequirements ::
  "env \<Rightarrow> section_info \<Rightarrow> player_data \<Rightarrow> req_result \<times> lookup list" where
  "checkRequirements e section resp =
     (let lookups = (if hasGuildId section then [] else [GetOrCreateGuildDoc]);
          verifReq = vp_verifReq (verificationProperties section);
          result = checkLastSeen verifReq resp (initialResult resp)
      in case checkGuild verifReq resp of
           Some fatal \<Rightarrow>
             (result\<lparr>fatalIssues := fatalIssues result @ [fatal], conclusion := FAIL\<rparr>, lookups)
         | None \<Rightarrow>
             (let result = checkAliveFame verifReq resp (checkRank verifReq resp result);
                  gyHist = getGraveyardSummary e (name resp);
                  lookups = lookups @ [GetGraveyardSummary];
                  result = checkCharacters verifReq resp gyHist result;
                  st = checkGraveyard e verifReq resp gyHist (result, lookups);
                  st = checkExaltations e verifReq resp st
              in (downgrade e section (assess (fst st)), snd st)))"


section \<open>Verification sessions\<close>

subsection \<open>Main section: the handler of the proof-code collector\<close>

text \<open>
  After the name is chosen, \<open>verifyMain\<close> shows the code with the buttons
  \<^emph>\<open>Check Profile\<close> and \<^emph>\<open>Cancel\<close> and collects button presses for twenty minutes.
  The session waits for the proof while the collector is collecting and the message
  carries both buttons; \<^verbatim>\<open>collector.stop()\<close> ends it.
\<close>

datatype collector = Collecting | Stopped

datatype button = CheckProfileButton | CancelButton

datatype report =
    Canceled
  | ProfileUnreachable
  | CodeNotFound
  | NameHistoryUnreachable
  | Blacklisted string string
  | RequirementsFailed "issue list"
  | RequirementsTryAgain "issue list"
  | ManualVerificationOffered "issue list"
  | Verified

record handler_result =
  collector :: collector
  components :: "button list"
  msgDeleted :: bool
  report :: report

record verify_session =
  nameToVerify :: string
  code :: string
  allAssociatedNames :: "string list"

definition stopped :: "report \<Rightarrow> handler_result" where
  "stopped r = \<lparr>collector = Stopped, components = [], msgDeleted = False, report = r\<rparr>"

text \<open>
  The three retry exits: the message gets both buttons back; when the direct message
  that follows cannot be delivered, the collector is stopped and the message deleted.
\<close>

definition retry :: "env \<Rightarrow> report \<Rightarrow> handler_result" where
  "retry e r =
     (if sendMsg e
      then \<lparr>collector = Collecting, components = [CheckProfileButton, CancelButton],
            msgDeleted = False, report = r\<rparr>
      else \<lparr>collector = Stopped, components = [CheckProfileButton, CancelButton],
            msgDeleted = True, report = r\<rparr>)"

text \<open>The first blacklist entry, and for it the first name, that match.\<close>

definition findBlacklisted ::
  "blacklist_entry list \<Rightarrow> string list \<Rightarrow> (blacklist_entry \<times> string) option" where
  "findBlacklisted entries names =
     find (\<lambda>p. lowercaseIgn (fst p) = toLowerCase (snd p)) (List.product entries names)"

text \<open>
  The \<^verbatim>\<open>collect\<close> handler; \<open>cancelId\<close> is \<^verbatim>\<open>ButtonConstants.CANCEL_ID\<close>.
\<close>

definition onCollect :: "string \<Rightarrow> env \<Rightarrow> guild_doc \<Rightarrow> verify_session \<Rightarrow> string \<Rightarrow> handler_result" where
  "onCollect cancelId e guildDoc s customId =
     (if customId = cancelId then stopped Canceled
      else
        (case getPlayerInfo e (nameToVerify s) of
           None \<Rightarrow> stopped ProfileUnreachable
         | Some requestData \<Rightarrow>
             if \<not> list_ex (\<lambda>d. includes_str d (code s)) (description requestData)
             then retry e CodeNotFound
             else
               (case getNameHistory e (nameToVerify s) of
                  None \<Rightarrow> retry e NameHistoryUnreachable
                | Some nameHistory \<Rightarrow>
                    (case findBlacklisted (blacklistedUsers guildDoc)
                            (name requestData # nameHistory @ allAssociatedNames s) of
                       Some hit \<Rightarrow> stopped (Blacklisted (snd hit) (actionId (fst hit)))
                     | None \<Rightarrow>
                         (let checkRes = fst (checkRequirements e (getMainSection guildDoc) requestData)
                          in if conclusion checkRes = FAIL
                             then stopped (RequirementsFailed
                                    (if fatalIssues checkRes = [] then manualIssues checkRes
                                     else fatalIssues checkRes))
                             else if conclusion checkRes = TRY_AGAIN
                             then retry e (RequirementsTryAgain (taIssues checkRes))
                             else if conclusion checkRes = MANUAL
                             then stopped (ManualVerificationOffered (manualIssues checkRes))
                             else stopped Verified)))))"

subsection \<open>Other sections\<close>

datatype section_outcome =
    NotStarted
  | VerifiedWithoutCheck
  | NoNameRegistered
  | NameReadFailed
  | ProfileNotFound
  | SectionTryAgain "issue list"
  | SectionFailed "issue list"
  | SectionManual "issue list"
  | SectionVerified

text \<open>
  \<open>verifySection\<close>. The verified role is looked up among the roles of the guild.
  Reading \<^verbatim>\<open>nameRes[0].rotmgNames[0].ign\<close> of a document without names throws; the
  rejected promise ends the attempt.
\<close>

definition verifySection :: "env \<Rightarrow> member \<Rightarrow> section_info \<Rightarrow> section_outcome" where
  "verifySection e m section =
     (if \<not> hasCachedRole e (verifiedRoleId section)
         \<or> verifiedRoleId section \<in> set (memberRoles m)
      then NotStarted
      else if \<not> vp_checkRequirements (verificationProperties section)
      then VerifiedWithoutCheck
      else
        (let nameToUse =
               (case getAllNames m of
                  [] \<Rightarrow>
                    (case findIdInIdNameCollection e (memberId m) of
                       [] \<Rightarrow> Inl NoNameRegistered
                     | [] # _ \<Rightarrow> Inl NameReadFailed
                     | (n # _) # _ \<Rightarrow> Inr n)
                | n # _ \<Rightarrow> Inr n)
         in case nameToUse of
              Inl out \<Rightarrow> out
            | Inr n \<Rightarrow>
                (case getPlayerInfo e n of
                   None \<Rightarrow> ProfileNotFound
                 | Some requestData \<Rightarrow>
                     (let checkRes = fst (checkRequirements e section requestData)
                      in if conclusion checkRes = TRY_AGAIN
                         then SectionTryAgain (taIssues checkRes)
                         else if conclusion checkRes = FAIL
                         then SectionFailed (fatalIssues checkRes)
                         else if conclusion checkRes = MANUAL
                         then SectionManual (manualIssues checkRes)
                         else SectionVerified))))"

section \<open>Manual verification: the moderator's answer\<close>

datatype ack_effect =
    DeleteQueueMessagesOfUser
  | DeleteQueueMessage
  | NotifyUser
  | LogDenied
  | LogAccepted
  | AddVerifiedRole
  | RegisterName
  | SetNickname
  | StartModmail

text \<open>
  The result of \<open>acknowledgeManualVerifyRes\<close>: the boolean returned, the entries of
  the guild document in the database afterwards, and what else was started
  (\<open>LogDenied\<close> and \<open>LogAccepted\<close> are the sends to the logging channels, which
  do nothing when the channel is not there).
\<close>

record ack_result =
  returned :: bool
  stored :: "manual_entry list"
  effects :: "ack_effect list"

definition acknowledgeManualVerifyRes ::
  "env \<Rightarrow> guild_doc \<Rightarrow> manual_entry \<Rightarrow> string \<Rightarrow> ack_result" where
  "acknowledgeManualVerifyRes e guildDoc manualVerifyRes responseId =
     (let entries = manualVerificationEntries guildDoc
      in if userId manualVerifyRes \<notin> set (guildMembers e) then
           \<lparr>returned = False,
            stored = filter (\<lambda>x. userId x \<noteq> userId manualVerifyRes) entries,
            effects = [DeleteQueueMessagesOfUser]\<rparr>
         else
           (case (case find (\<lambda>x. uniqueIdentifier x = sectionId manualVerifyRes)
                         (guildSections guildDoc) of
                    Some sec \<Rightarrow> Some sec
                  | None \<Rightarrow>
                      if sectionId manualVerifyRes \<noteq> ''MAIN'' then None
                      else Some (getMainSection guildDoc)) of
              None \<Rightarrow>
                \<lparr>returned = False,
                 stored = filter (\<lambda>x. sectionId x \<noteq> sectionId manualVerifyRes) entries,
                 effects = []\<rparr>
            | Some section \<Rightarrow>
                if \<not> hasCachedRole e (verifiedRoleId section) then
                  \<lparr>returned = False, stored = entries, effects = []\<rparr>
                else if responseId = MANUAL_VERIFY_MODMAIL_ID then
                  \<lparr>returned = startModmailWithUser e, stored = entries, effects = [StartModmail]\<rparr>
                else if responseId = MANUAL_VERIFY_DENY_ID then
                  \<lparr>returned = True,
                   stored = filter (\<lambda>x. \<not> (sectionId x = sectionId manualVerifyRes
                                           \<and> userId x = userId manualVerifyRes)) entries,
                   effects = [DeleteQueueMessage, NotifyUser, LogDenied]\<rparr>
                else if responseId = MANUAL_VERIFY_ACCEPT_ID then
                  \<lparr>returned = True,
                   stored = filter (\<lambda>x. \<not> (sectionId x = sectionId manualVerifyRes
                                           \<and> userId x = userId manualVerifyRes)) entries,
                   effects = [DeleteQueueMessage, NotifyUser, AddVerifiedRole]
                     @ (if isMainSection section then [RegisterName, SetNickname, LogAccepted]
                        else [LogAccepted])\<rparr>
                else
                  \<lparr>returned = False, stored = entries, effects = []\<rparr>))"


section \<open>Concrete inputs\<close>

text \<open>
  A guild whose manual verification channel \<open>mv\<close> and verified role \<open>vr\<close> exist, with a
  profile service that answers nothing, and a policy with every check switched off.
\<close>

definition silent :: "string \<Rightarrow> 'a option" where
  "silent n = None"

definition noDocs :: "string \<Rightarrow> 'a list" where
  "noDocs n = []"

definition zeroStats :: "stat \<Rightarrow> int" where
  "zeroStats s = 0"

definition exampleEnv :: env where
  "exampleEnv =
     \<lparr>guildId = ''g1'', cachedChannels = [''mv''], cachedRoles = [''vr''],
      getPlayerInfo = silent, getNameHistory = silent, getGraveyardSummary = silent,
      getExaltation = silent, getUserDoc = noDocs, getDungeonInfo = silent,
      findIdInIdNameCollection = noDocs, guildMembers = [''u1''], sendMsg = True,
      startModmailWithUser = True\<rparr>"

definition openPolicy :: verif_req where
  "openPolicy =
     \<lparr>vr_lastSeen = \<lparr>ls_mustBeHidden = False\<rparr>,
      vr_rank = \<lparr>rk_checkThis = False, rk_minRank = 0\<rparr>,
      vr_guild = \<lparr>g_checkThis = False,
                  g_guildName = \<lparr>gn_checkThis = False, gn_name = []\<rparr>,
                  g_guildRank = \<lparr>gr_checkThis = False, gr_minRank = [], gr_exact = False\<rparr>\<rparr>,
      vr_aliveFame = \<lparr>af_checkThis = False, af_minFame = 0\<rparr>,
      vr_characters = \<lparr>ch_checkThis = False, ch_statsNeeded = [0, 0, 0, 0, 0, 0, 0, 0, 0],
                       ch_checkPastDeaths = False\<rparr>,
      vr_exaltations = \<lparr>ex_checkThis = False, ex_minimum = zeroStats, ex_onOneChar = False\<rparr>,
      vr_graveyardSummary = \<lparr>gy_checkThis = False, gy_useBotCompletions = False,
                             gy_botCompletions = [], gy_realmEyeCompletions = []\<rparr>\<rparr>"

definition sectionWith :: "bool \<Rightarrow> verif_req \<Rightarrow> section_info" where
  "sectionWith flag verifReq =
     \<lparr>hasGuildId = False, uniqueIdentifier = ''MAIN'', isMainSection = True,
      verifiedRoleId = ''vr'', manualVerificationChannelId = ''mv'',
      verificationProperties = \<lparr>vp_checkRequirements = flag, vp_verifReq = verifReq\<rparr>\<rparr>"

definition examplePlayer :: player_data where
  "examplePlayer =
     \<lparr>name = ''Alice'', rank = 5, fame = 100, guild = ''Night Owls'', guildRank = ''Member'',
      lastSeen = ''hidden'', characters = [], description = [''code: abc123'']\<rparr>"

text \<open>A profile whose last seen location is public, under a policy that wants it hidden.\<close>

definition visiblePlayer :: player_data where
  "visiblePlayer = examplePlayer\<lparr>lastSeen := ''2022-01-01 12:00:00 at USWest as Wizard''\<rparr>"

definition hiddenPolicy :: verif_req where
  "hiddenPolicy = openPolicy\<lparr>vr_lastSeen := \<lparr>ls_mustBeHidden = True\<rparr>\<rparr>"

text \<open>A policy asking for ten stars, and a guild without the manual verification channel.\<close>

definition starsPolicy :: verif_req where
  "starsPolicy = openPolicy\<lparr>vr_rank := \<lparr>rk_checkThis = True, rk_minRank = 10\<rparr>\<rparr>"

definition noChannelEnv :: env where
  "noChannelEnv = exampleEnv\<lparr>cachedChannels := []\<rparr>"

text \<open>Policies on the guild: the block enabled with the name required.\<close>

definition guildPolicy :: verif_req where
  "guildPolicy =
     openPolicy\<lparr>vr_guild :=
       \<lparr>g_checkThis = True,
        g_guildName = \<lparr>gn_checkThis = True, gn_name = ''Black Bullet''\<rparr>,
        g_guildRank = \<lparr>gr_checkThis = False, gr_minRank = [], gr_exact = False\<rparr>\<rparr>\<rparr>"

text \<open>Character requirements: the two examples of the cascade.\<close>

definition oneSixEight :: characters_req where
  "oneSixEight = \<lparr>ch_checkThis = True, ch_statsNeeded = [0, 1, 0, 0, 0, 0, 0, 0],
                  ch_checkPastDeaths = False\<rparr>"

definition tierZeroPlayer :: player_data where
  "tierZeroPlayer = examplePlayer\<lparr>characters := [\<lparr>statsMaxed = 0\<rparr>]\<rparr>"

text \<open>
  Exaltations: five attack and five defense required; one character with five attack,
  another with five defense, and one with both.
\<close>

definition attDef :: "stat \<Rightarrow> int" where
  "attDef s = (if s = Att \<or> s = Def then 5 else 0)"

definition attOnly :: exaltation_entry where
  "attOnly = \<lparr>exaltationStats = zeroStats(Att := 5)\<rparr>"

definition defOnly :: exaltation_entry where
  "defOnly = \<lparr>exaltationStats = zeroStats(Def := 5)\<rparr>"

definition attAndDef :: exaltation_entry where
  "attAndDef = \<lparr>exaltationStats = attDef\<rparr>"

definition onOneCharPolicy :: "(stat \<Rightarrow> int) \<Rightarrow> exaltations_req" where
  "onOneCharPolicy m = \<lparr>ex_checkThis = True, ex_minimum = m, ex_onOneChar = True\<rparr>"

definition summedPolicy :: "(stat \<Rightarrow> int) \<Rightarrow> exaltations_req" where
  "summedPolicy m = \<lparr>ex_checkThis = True, ex_minimum = m, ex_onOneChar = False\<rparr>"

text \<open>A verification session of the main section and a pending manual entry.\<close>

definition exampleSession :: verify_session where
  "exampleSession = \<lparr>nameToVerify = ''Alice'', code = ''abc123'', allAssociatedNames = []\<rparr>"

definition exampleEntry :: manual_entry where
  "exampleEntry =
     \<lparr>userId = ''u1'', ign = ''Alice'', manualVerifyMsgId = ''m1'',
      manualVerifyChannelId = ''mv'', sectionId = ''MAIN''\<rparr>"

definition guildDocWith :: "section_info \<Rightarrow> guild_doc" where
  "guildDocWith main =
     \<lparr>manualVerificationEntries = [exampleEntry], guildSections = [],
      getMainSection = main, blacklistedUsers = []\<rparr>"


text \<open>
  A profile service that answers: the profile and an empty name history; or an
  exaltation record.
\<close>

definition answering :: "'a \<Rightarrow> string \<Rightarrow> 'a option" where
  "answering x n = Some x"

definition onlineEnv :: "player_data \<Rightarrow> env" where
  "onlineEnv p = exampleEnv\<lparr>getPlayerInfo := answering p, getNameHistory := answering []\<rparr>"

definition noExaltations :: exaltation_data where
  "noExaltations = \<lparr>exaltations = []\<rparr>"

definition exaltEnv :: "exaltation_data \<Rightarrow> env" where
  "exaltEnv d = exampleEnv\<lparr>getExaltation := answering d\<rparr>"

definition unmarkedPlayer :: player_data where
  "unmarkedPlayer = examplePlayer\<lparr>description := [''hello'']\<rparr>"

text \<open>A policy on exaltations alone.\<close>

definition exaltPolicy :: verif_req where
  "exaltPolicy = openPolicy\<lparr>vr_exaltations := onOneCharPolicy attDef\<rparr>"

text \<open>A guild without the verified role; and one that the user has left as well.\<close>

definition noRoleEnv :: env where
  "noRoleEnv = exampleEnv\<lparr>cachedRoles := []\<rparr>"

definition goneEnv :: env where
  "goneEnv = exampleEnv\<lparr>cachedRoles := [], guildMembers := []\<rparr>"

definition exampleMember :: member where
  "exampleMember = \<lparr>memberId = ''u1'', memberRoles = [], getAllNames = [''Alice'']\<rparr>"

definition otherSection :: "bool \<Rightarrow> verif_req \<Rightarrow> section_info" where
  "otherSection flag verifReq =
     (sectionWith flag verifReq)\<lparr>uniqueIdentifier := ''s2'', isMainSection := False\<rparr>"

section \<open>The cascade as the specification words it\<close>

text \<open>
  A character of tier \<open>T\<close> takes one off \<open>needed[T]\<close> when that is positive, and
  otherwise one off the first positive tier found going down from \<open>T - 1\<close> to \<open>0\<close>.
\<close>

definition cascadeSpec :: "int list \<Rightarrow> nat \<Rightarrow> int list" where
  "cascadeSpec needed T =
     (if T < length needed \<and> needed ! T > 0 then needed[T := needed ! T - 1]
      else (case find (\<lambda>tier. tier < length needed \<and> needed ! tier > 0) (rev [0..<T]) of
              Some tier \<Rightarrow> needed[tier := needed ! tier - 1]
            | None \<Rightarrow> needed))"

section \<open>Evaluation of the definitions on concrete inputs\<close>

lemmas eval_defs =
  checkRequirements_def checkLastSeen_def initialResult_def checkGuild_def checkRank_def
  checkAliveFame_def checkCharacters_def remainingStats_def matchCharacters_def
  characterStep_def fulfil_def needs_def at_def decrease_def missingStats_def
  checkGraveyard_def checkExaltations_def assess_def downgrade_def hasCachedChannel_def
  hasCachedRole_def toLowerCase_def lower_char_def notMetExaltations_def remainingExalt_def
  entryPasses_def sumLoop_def SHORT_STAT_KEYS_def

lemmas input_defs =
  exampleEnv_def sectionWith_def openPolicy_def oneSixEight_def tierZeroPlayer_def
  examplePlayer_def silent_def noDocs_def zeroStats_def visiblePlayer_def hiddenPolicy_def
  starsPolicy_def noChannelEnv_def guildPolicy_def attDef_def attOnly_def defOnly_def
  attAndDef_def onOneCharPolicy_def summedPolicy_def exampleSession_def exampleEntry_def
  guildDocWith_def answering_def onlineEnv_def noExaltations_def exaltEnv_def
  unmarkedPlayer_def noRoleEnv_def goneEnv_def exampleMember_def otherSection_def
  exaltPolicy_def

section \<open>The guild rank ordering\<close>

lemma indexOfFrom_absent: "x \<notin> set xs \<Longrightarrow> indexOfFrom xs x i = - 1"
  by (induction xs arbitrary: i) auto

text \<open>
  C10. A rank is always valid against itself, also a rank outside the five of
  \<open>GUILD_ROLES\<close>; and a floor outside \<open>GUILD_ROLES\<close> admits no other rank.
\<close>

theorem isValidGuildRank_reflexive_unknown_floor:
  "isValidGuildRank r r
   \<and> (floor \<notin> set GUILD_ROLES \<longrightarrow> actual \<noteq> floor \<longrightarrow> \<not> isValidGuildRank floor actual)"
  by (simp add: isValidGuildRank_def indexOf_def indexOfFrom_absent)

theorem isValidGuildRank_reflexive_unknown_floor_witness:
  "isValidGuildRank ''Captain'' ''Captain''
   \<and> ''Captain'' \<notin> set GUILD_ROLES \<and> ''Founder'' \<noteq> ''Captain''
   \<and> \<not> isValidGuildRank ''Captain'' ''Founder''"
  using isValidGuildRank_reflexive_unknown_floor [of "''Captain''" "''Captain''" "''Founder''"]
  by (simp add: GUILD_ROLES_def)

section \<open>The verdict\<close>

lemma assess_lists [simp]:
  "fatalIssues (assess r) = fatalIssues r"
  "taIssues (assess r) = taIssues r"
  "manualIssues (assess r) = manualIssues r"
  by (simp_all add: assess_def)

lemma downgrade_lists [simp]:
  "fatalIssues (downgrade e s r) = fatalIssues r"
  "taIssues (downgrade e s r) = taIssues r"
  "manualIssues (downgrade e s r) = manualIssues r"
  by (simp_all add: downgrade_def)

lemma conclusion_assess:
  "conclusion (assess r) =
     (if fatalIssues r \<noteq> [] then FAIL
      else if taIssues r \<noteq> [] then TRY_AGAIN
      else if manualIssues r \<noteq> [] then MANUAL
      else PASS)"
  by (simp add: assess_def)

lemma conclusion_downgrade:
  "conclusion (downgrade e s r) =
     (if conclusion r = MANUAL \<and> \<not> hasCachedChannel e (manualVerificationChannelId s) then FAIL
      else conclusion r)"
  by (simp add: downgrade_def)

lemma verdict_follows:
  "conclusion (downgrade e section (assess r0)) =
     (if fatalIssues r0 \<noteq> [] then FAIL
      else if taIssues r0 \<noteq> [] then TRY_AGAIN
      else if manualIssues r0 \<noteq> []
        then (if hasCachedChannel e (manualVerificationChannelId section) then MANUAL else FAIL)
      else PASS)"
  by (simp add: conclusion_downgrade conclusion_assess)

text \<open>
  C3, as the claim states it, fails: with ten stars required, a profile of five stars
  and no manual verification channel in the guild, the only issue is a manual one,
  yet the verdict is \<open>FAIL\<close>, not \<open>MANUAL\<close>.
\<close>

theorem manual_issue_without_channel_fails:
  "conclusion (fst (checkRequirements noChannelEnv (sectionWith True starsPolicy) examplePlayer)) = FAIL
   \<and> fatalIssues (fst (checkRequirements noChannelEnv (sectionWith True starsPolicy) examplePlayer)) = []
   \<and> taIssues (fst (checkRequirements noChannelEnv (sectionWith True starsPolicy) examplePlayer)) = []
   \<and> manualIssues (fst (checkRequirements noChannelEnv (sectionWith True starsPolicy) examplePlayer))
       = [\<lparr>key = ''Rank Too Low'', info = LowRank 5 10\<rparr>]"
  by (simp add: eval_defs input_defs)

text \<open>
  C3, amended. The verdict follows the precedence fatal, try again, manual, pass,
  for the verdict step on any result and for the evaluator as a whole: a fatal issue
  gives \<open>FAIL\<close> whatever else is present; otherwise a try-again issue gives
  \<open>TRY_AGAIN\<close>; otherwise a manual issue gives \<open>MANUAL\<close> when the manual verification
  channel of the section exists and \<open>FAIL\<close> when it does not; otherwise \<open>PASS\<close>.
\<close>

theorem verdict_precedence:
  "(let r = downgrade e section (assess r0)
    in conclusion r =
         (if fatalIssues r \<noteq> [] then FAIL
          else if taIssues r \<noteq> [] then TRY_AGAIN
          else if manualIssues r \<noteq> []
            then (if hasCachedChannel e (manualVerificationChannelId section) then MANUAL else FAIL)
          else PASS))
   \<and> (let r = fst (checkRequirements e section resp)
      in conclusion r =
         (if fatalIssues r \<noteq> [] then FAIL
          else if taIssues r \<noteq> [] then TRY_AGAIN
          else if manualIssues r \<noteq> []
            then (if hasCachedChannel e (manualVerificationChannelId section) then MANUAL else FAIL)
          else PASS))"
proof (cases "checkGuild (vp_verifReq (verificationProperties section)) resp")
  case None
  then show ?thesis
    by (simp add: checkRequirements_def verdict_follows Let_def)
next
  case (Some fatal)
  then show ?thesis
    by (simp add: checkRequirements_def verdict_follows Let_def)
qed

theorem verdict_precedence_witness:
  "conclusion (fst (checkRequirements exampleEnv (sectionWith True starsPolicy) examplePlayer)) = MANUAL
   \<and> conclusion (fst (checkRequirements noChannelEnv (sectionWith True starsPolicy) examplePlayer)) = FAIL
   \<and> conclusion (fst (checkRequirements exampleEnv (sectionWith True openPolicy) examplePlayer)) = PASS"
  using verdict_precedence [of exampleEnv "sectionWith True starsPolicy" "initialResult examplePlayer" examplePlayer]
        verdict_precedence [of noChannelEnv "sectionWith True starsPolicy" "initialResult examplePlayer" examplePlayer]
        verdict_precedence [of exampleEnv "sectionWith True openPolicy" "initialResult examplePlayer" examplePlayer]
  by (simp add: eval_defs input_defs)

section \<open>The cascade over character tiers\<close>

lemma needs_iff: "needs ns i \<longleftrightarrow> i < length ns \<and> ns ! i > 0"
  by (simp add: needs_def at_def)

lemma scanDown_find:
  "scanDown ns T d =
     (case find (\<lambda>tier. tier < length ns \<and> ns ! tier > 0) (rev [0..<T]) of
        Some tier \<Rightarrow> ns[tier := ns ! tier - d]
      | None \<Rightarrow> ns)"
  by (induction T) (simp_all add: needs_iff decrease_def)

lemma fulfil_spec: "fulfil ns T 1 = cascadeSpec ns T"
  by (simp add: fulfil_def cascadeSpec_def scanDown_find needs_iff decrease_def)

lemma scanDown_above: "T \<le> j \<Longrightarrow> scanDown ns T d ! j = ns ! j"
  by (induction T) (simp_all add: decrease_def)

lemma scanDown_length: "length (scanDown ns T d) = length ns"
  by (induction T) (simp_all add: decrease_def)

lemma fulfil_above: "T < j \<Longrightarrow> fulfil ns T d ! j = ns ! j"
  by (simp add: fulfil_def decrease_def scanDown_above)

lemma fulfil_length: "length (fulfil ns T d) = length ns"
  by (simp add: fulfil_def decrease_def scanDown_length)

lemma foldl_characterStep:
  "\<forall>c \<in> set cs. 0 \<le> statsMaxed c \<Longrightarrow>
   foldl characterStep ns cs = foldl (\<lambda>n c. cascadeSpec n (nat (statsMaxed c))) ns cs"
  by (induction cs arbitrary: ns) (simp_all add: characterStep_def fulfil_spec)

lemma cascade_down_example:
  "matchCharacters [0, 0, 1, 0, 0, 0, 0, 0] [\<lparr>statsMaxed = 3\<rparr>] = [0, 0, 0, 0, 0, 0, 0, 0]"
  by (simp add: eval_defs numeral_nat)

lemma cascade_not_up_example:
  "matchCharacters [0, 1, 0, 0, 0, 0, 0, 0] [\<lparr>statsMaxed = 0\<rparr>] = [0, 1, 0, 0, 0, 0, 0, 0]"
  by (simp add: eval_defs)

lemma cascade_not_up_issue:
  "manualIssues (fst (checkRequirements exampleEnv
       (sectionWith True (openPolicy\<lparr>vr_characters := oneSixEight\<rparr>)) tierZeroPlayer))
     = [\<lparr>key = ''Stats Requirement Not Fulfilled'', info = MissingStats [(1, 1)]\<rparr>]"
  by (simp add: eval_defs input_defs upt_rec)

text \<open>
  C5. The loop over the characters whose \<open>statsMaxed\<close> is not \<open>-1\<close> is the cascade of
  the specification, character by character; a character of tier \<open>T\<close> leaves every
  tier above \<open>T\<close> as it was (and the array as long as it was), so a need is never met
  from below. With \<open>[0,0,1,0,0,0,0,0]\<close> needed and one character of tier 3 nothing
  stays needed; with \<open>[0,1,0,0,0,0,0,0]\<close> needed and one character of tier 0 the need
  of tier 1 stays, and the evaluator reports it as a manual issue.
\<close>

theorem character_cascade:
  "((\<forall>c \<in> set cs. - 1 \<le> statsMaxed c) \<longrightarrow>
      matchCharacters ns cs =
        foldl (\<lambda>n c. cascadeSpec n (nat (statsMaxed c))) ns (filter (\<lambda>c. statsMaxed c \<noteq> - 1) cs))
   \<and> (0 \<le> statsMaxed c \<longrightarrow>
        length (characterStep ns c) = length ns
        \<and> (\<forall>j. nat (statsMaxed c) < j \<longrightarrow> characterStep ns c ! j = ns ! j))
   \<and> matchCharacters [0, 0, 1, 0, 0, 0, 0, 0] [\<lparr>statsMaxed = 3\<rparr>] = [0, 0, 0, 0, 0, 0, 0, 0]
   \<and> matchCharacters [0, 1, 0, 0, 0, 0, 0, 0] [\<lparr>statsMaxed = 0\<rparr>] = [0, 1, 0, 0, 0, 0, 0, 0]
   \<and> manualIssues (fst (checkRequirements exampleEnv
         (sectionWith True (openPolicy\<lparr>vr_characters := oneSixEight\<rparr>)) tierZeroPlayer))
       = [\<lparr>key = ''Stats Requirement Not Fulfilled'', info = MissingStats [(1, 1)]\<rparr>]"
proof (intro conjI impI allI)
  assume a: "\<forall>c \<in> set cs. - 1 \<le> statsMaxed c"
  have "\<forall>c \<in> set (filter (\<lambda>c. statsMaxed c \<noteq> - 1) cs). 0 \<le> statsMaxed c"
    using a by fastforce
  then show "matchCharacters ns cs =
      foldl (\<lambda>n c. cascadeSpec n (nat (statsMaxed c))) ns (filter (\<lambda>c. statsMaxed c \<noteq> - 1) cs)"
    unfolding matchCharacters_def by (rule foldl_characterStep)
next
  assume "0 \<le> statsMaxed c"
  then show "length (characterStep ns c) = length ns"
    by (simp add: characterStep_def fulfil_length)
next
  fix j
  assume "0 \<le> statsMaxed c" "nat (statsMaxed c) < j"
  then show "characterStep ns c ! j = ns ! j"
    by (simp add: characterStep_def fulfil_above)
qed (rule cascade_down_example cascade_not_up_example cascade_not_up_issue)+

theorem character_cascade_witness:
  "matchCharacters [0, 2, 1, 0] [\<lparr>statsMaxed = 3\<rparr>, \<lparr>statsMaxed = - 1\<rparr>, \<lparr>statsMaxed = 1\<rparr>]
     = cascadeSpec (cascadeSpec [0, 2, 1, 0] 3) 1
   \<and> cascadeSpec (cascadeSpec [0, 2, 1, 0] 3) 1 = [0, 1, 0, 0]
   \<and> length (characterStep [0, 1, 0] \<lparr>statsMaxed = 0\<rparr>) = 3
   \<and> characterStep [0, 1, 0] \<lparr>statsMaxed = 0\<rparr> ! 1 = 1"
  using character_cascade [of "[\<lparr>statsMaxed = 3\<rparr>, \<lparr>statsMaxed = - 1\<rparr>, \<lparr>statsMaxed = 1\<rparr>]"
          "[0, 2, 1, 0]" "\<lparr>statsMaxed = 0\<rparr>"]
        character_cascade [of "[]" "[0, 1, 0]" "\<lparr>statsMaxed = 0\<rparr>"]
  by (simp add: cascadeSpec_def numeral_nat)


section \<open>The manual verdict without a manual verification channel\<close>

lemma botStep_channels: "botStep (e\<lparr>cachedChannels := c\<rparr>) = botStep e"
  by (intro ext) (simp add: botStep_def cong: option.case_cong prod.case_cong)

lemma checkGraveyard_channels: "checkGraveyard (e\<lparr>cachedChannels := c\<rparr>) = checkGraveyard e"
  by (intro ext)
     (simp add: checkGraveyard_def botStep_channels
        cong: option.case_cong prod.case_cong list.case_cong if_cong)

lemma checkExaltations_channels: "checkExaltations (e\<lparr>cachedChannels := c\<rparr>) = checkExaltations e"
  by (intro ext)
     (simp add: checkExaltations_def cong: option.case_cong prod.case_cong list.case_cong if_cong)

text \<open>
  C7. The last step turns the verdict \<open>MANUAL\<close> into \<open>FAIL\<close> when the manual
  verification channel of the section does not exist, and changes no other verdict.
  For the evaluator as a whole: in a guild that has the channel, taking all channels
  away turns a \<open>MANUAL\<close> verdict into \<open>FAIL\<close>, keeps every other verdict, and keeps the
  three issue lists.
\<close>

theorem manual_downgrade_without_channel:
  "conclusion (downgrade e section r)
     = (if conclusion r = MANUAL \<and> \<not> hasCachedChannel e (manualVerificationChannelId section)
        then FAIL else conclusion r)
   \<and> (hasCachedChannel e (manualVerificationChannelId section) \<longrightarrow>
        conclusion (fst (checkRequirements (e\<lparr>cachedChannels := []\<rparr>) section resp))
          = (if conclusion (fst (checkRequirements e section resp)) = MANUAL then FAIL
             else conclusion (fst (checkRequirements e section resp)))
        \<and> manualIssues (fst (checkRequirements (e\<lparr>cachedChannels := []\<rparr>) section resp))
            = manualIssues (fst (checkRequirements e section resp))
        \<and> taIssues (fst (checkRequirements (e\<lparr>cachedChannels := []\<rparr>) section resp))
            = taIssues (fst (checkRequirements e section resp))
        \<and> fatalIssues (fst (checkRequirements (e\<lparr>cachedChannels := []\<rparr>) section resp))
            = fatalIssues (fst (checkRequirements e section resp)))"
proof (cases "checkGuild (vp_verifReq (verificationProperties section)) resp")
  case None
  then show ?thesis
    by (simp add: checkRequirements_def Let_def conclusion_downgrade checkGraveyard_channels
          checkExaltations_channels hasCachedChannel_def)
next
  case (Some fatal)
  then show ?thesis
    by (simp add: checkRequirements_def Let_def conclusion_downgrade)
qed

theorem manual_downgrade_without_channel_witness:
  "hasCachedChannel exampleEnv (manualVerificationChannelId (sectionWith True starsPolicy))
   \<and> conclusion (fst (checkRequirements exampleEnv (sectionWith True starsPolicy) examplePlayer)) = MANUAL
   \<and> conclusion (fst (checkRequirements (exampleEnv\<lparr>cachedChannels := []\<rparr>)
         (sectionWith True starsPolicy) examplePlayer)) = FAIL
   \<and> conclusion (fst (checkRequirements exampleEnv (sectionWith True hiddenPolicy) visiblePlayer)) = TRY_AGAIN
   \<and> conclusion (fst (checkRequirements (exampleEnv\<lparr>cachedChannels := []\<rparr>)
         (sectionWith True hiddenPolicy) visiblePlayer)) = TRY_AGAIN"
  using manual_downgrade_without_channel
          [of exampleEnv "sectionWith True starsPolicy" "initialResult examplePlayer" examplePlayer]
        manual_downgrade_without_channel
          [of exampleEnv "sectionWith True hiddenPolicy" "initialResult examplePlayer" visiblePlayer]
  by (simp add: eval_defs input_defs)

section \<open>The guild block\<close>

text \<open>
  C4. With the guild block and its guild name check enabled, a guild name that differs
  from the required one after lower-casing ends the evaluation at once: the verdict
  is \<open>FAIL\<close>, the fatal issue \<open>Not In Correct Guild\<close> is the only fatal issue, no
  manual issue is recorded, the try-again issues are those of the last seen check
  that ran before, and no graveyard, user document or exaltation lookup is made, so
  none of the later checks has run.
\<close>

theorem guild_name_mismatch_short_circuits:
  assumes "g_checkThis (vr_guild (vp_verifReq (verificationProperties section)))"
    and "gn_checkThis (g_guildName (vr_guild (vp_verifReq (verificationProperties section))))"
    and "toLowerCase (guild resp)
           \<noteq> toLowerCase (gn_name (g_guildName (vr_guild (vp_verifReq (verificationProperties section)))))"
  shows "conclusion (fst (checkRequirements e section resp)) = FAIL
     \<and> fatalIssues (fst (checkRequirements e section resp))
         = [\<lparr>key = ''Not In Correct Guild'',
             info = WrongGuild (guild resp)
                      (gn_name (g_guildName (vr_guild (vp_verifReq (verificationProperties section)))))\<rparr>]
     \<and> manualIssues (fst (checkRequirements e section resp)) = []
     \<and> taIssues (fst (checkRequirements e section resp))
         = taIssues (checkLastSeen (vp_verifReq (verificationProperties section)) resp (initialResult resp))
     \<and> snd (checkRequirements e section resp) = (if hasGuildId section then [] else [GetOrCreateGuildDoc])"
  using assms
  by (simp add: checkRequirements_def checkGuild_def Let_def checkLastSeen_def initialResult_def)

theorem guild_name_mismatch_short_circuits_witness:
  "toLowerCase (guild examplePlayer) = ''night owls''
   \<and> toLowerCase (gn_name (g_guildName (vr_guild guildPolicy))) = ''black bullet''
   \<and> conclusion (fst (checkRequirements exampleEnv (sectionWith True guildPolicy) examplePlayer)) = FAIL
   \<and> conclusion (fst (checkRequirements exampleEnv (sectionWith True openPolicy) examplePlayer)) = PASS
   \<and> snd (checkRequirements exampleEnv (sectionWith True guildPolicy) examplePlayer) = [GetOrCreateGuildDoc]"
  using guild_name_mismatch_short_circuits [of "sectionWith True guildPolicy" examplePlayer exampleEnv]
  by (simp add: eval_defs input_defs)

section \<open>The lookups of one evaluation\<close>

lemma snd_checkGraveyard:
  "snd (checkGraveyard e verifReq resp gyHist (r, l)) =
     l @ (if gy_checkThis (vr_graveyardSummary verifReq)
             \<and> gy_useBotCompletions (vr_graveyardSummary verifReq)
          then [GetUserDoc] else [])"
  by (simp add: checkGraveyard_def Let_def split: option.split)

lemma snd_checkExaltations:
  "snd (checkExaltations e verifReq resp st) =
     snd st @ (if ex_checkThis (vr_exaltations verifReq) then [GetExaltation] else [])"
  by (cases st) (simp add: checkExaltations_def Let_def split: option.split)

lemma lookups_made:
  "snd (checkRequirements e section resp) =
     (if hasGuildId section then [] else [GetOrCreateGuildDoc])
     @ (case checkGuild (vp_verifReq (verificationProperties section)) resp of
          Some fatal \<Rightarrow> []
        | None \<Rightarrow>
            [GetGraveyardSummary]
            @ (if gy_checkThis (vr_graveyardSummary (vp_verifReq (verificationProperties section)))
                  \<and> gy_useBotCompletions (vr_graveyardSummary (vp_verifReq (verificationProperties section)))
               then [GetUserDoc] else [])
            @ (if ex_checkThis (vr_exaltations (vp_verifReq (verificationProperties section)))
               then [GetExaltation] else []))"
  by (simp add: checkRequirements_def Let_def snd_checkExaltations snd_checkGraveyard
        split: option.split)

text \<open>
  C8, as the claim states it, fails: under a policy with neither the character check
  nor the graveyard check enabled the graveyard summary is fetched all the same.
\<close>

theorem graveyard_fetched_without_need:
  "GetGraveyardSummary \<in> set (snd (checkRequirements exampleEnv (sectionWith True openPolicy) examplePlayer))
   \<and> \<not> ch_checkThis (vr_characters openPolicy)
   \<and> \<not> gy_checkThis (vr_graveyardSummary openPolicy)"
  by (simp add: eval_defs input_defs)

text \<open>
  C8, amended. The graveyard summary is fetched in every evaluation that gets past
  the guild block, whatever the policy enables; the exaltation record is fetched
  exactly when moreover the exaltation check is enabled; the user document with the
  logged counters is read exactly when moreover the graveyard check is enabled in
  its logged completions mode.
\<close>

theorem lookups_of_evaluation:
  "(GetGraveyardSummary \<in> set (snd (checkRequirements e section resp))
      \<longleftrightarrow> checkGuild (vp_verifReq (verificationProperties section)) resp = None)
   \<and> (GetExaltation \<in> set (snd (checkRequirements e section resp))
      \<longleftrightarrow> checkGuild (vp_verifReq (verificationProperties section)) resp = None
          \<and> ex_checkThis (vr_exaltations (vp_verifReq (verificationProperties section))))
   \<and> (GetUserDoc \<in> set (snd (checkRequirements e section resp))
      \<longleftrightarrow> checkGuild (vp_verifReq (verificationProperties section)) resp = None
          \<and> gy_checkThis (vr_graveyardSummary (vp_verifReq (verificationProperties section)))
          \<and> gy_useBotCompletions (vr_graveyardSummary (vp_verifReq (verificationProperties section))))"
  by (cases "checkGuild (vp_verifReq (verificationProperties section)) resp")
     (simp_all add: lookups_made)

theorem lookups_of_evaluation_witness:
  "snd (checkRequirements exampleEnv (sectionWith True openPolicy) examplePlayer)
     = [GetOrCreateGuildDoc, GetGraveyardSummary]
   \<and> GetExaltation \<notin> set (snd (checkRequirements exampleEnv (sectionWith True openPolicy) examplePlayer))
   \<and> GetGraveyardSummary \<notin> set (snd (checkRequirements exampleEnv (sectionWith True guildPolicy) examplePlayer))"
  using lookups_of_evaluation [of exampleEnv "sectionWith True openPolicy" examplePlayer]
        lookups_of_evaluation [of exampleEnv "sectionWith True guildPolicy" examplePlayer]
  by (simp add: eval_defs input_defs)

section \<open>The master flag\<close>

lemma downgrade_properties:
  "downgrade e (section\<lparr>verificationProperties := vp\<rparr>) r = downgrade e section r"
  by (simp add: downgrade_def)

lemma checkRequirements_ignores_flag:
  "checkRequirements e
     (section\<lparr>verificationProperties := (verificationProperties section)\<lparr>vp_checkRequirements := b\<rparr>\<rparr>) resp
   = checkRequirements e section resp"
  by (simp add: checkRequirements_def downgrade_properties Let_def cong: option.case_cong)

lemma verifySection_flag_off:
  "hasCachedRole e (verifiedRoleId section) \<Longrightarrow> verifiedRoleId section \<notin> set (memberRoles m)
   \<Longrightarrow> \<not> vp_checkRequirements (verificationProperties section)
   \<Longrightarrow> verifySection e m section = VerifiedWithoutCheck"
  by (simp add: verifySection_def)

text \<open>
  C1. The evaluator never reads the master flag. Under a policy whose flag is off
  and that wants the last seen location hidden, a profile with a public location gets
  the verdict \<open>TRY_AGAIN\<close> with one try-again issue, and the main section's session
  sends the user back to the proof step with it; the verification of another
  section, given the same policy, verifies without any check.
\<close>

theorem master_flag_ignored_by_evaluator:
  "\<not> vp_checkRequirements (verificationProperties (sectionWith False hiddenPolicy))
   \<and> conclusion (fst (checkRequirements exampleEnv (sectionWith False hiddenPolicy) visiblePlayer)) = TRY_AGAIN
   \<and> taIssues (fst (checkRequirements exampleEnv (sectionWith False hiddenPolicy) visiblePlayer))
       = [\<lparr>key = ''Last Seen Location is Not Private'', info = LastSeenPublic\<rparr>]
   \<and> report (onCollect ''cancel'' (onlineEnv visiblePlayer) (guildDocWith (sectionWith False hiddenPolicy))
         exampleSession CHECK_PROFILE_ID)
       = RequirementsTryAgain [\<lparr>key = ''Last Seen Location is Not Private'', info = LastSeenPublic\<rparr>]
   \<and> verifySection exampleEnv exampleMember (otherSection False hiddenPolicy) = VerifiedWithoutCheck"
  by (simp add: eval_defs input_defs onCollect_def CHECK_PROFILE_ID_def findBlacklisted_def retry_def
        verifySection_def startsWith_def)

theorem master_flag_ignored_by_evaluator_witness:
  "conclusion (fst (checkRequirements exampleEnv (sectionWith False hiddenPolicy) visiblePlayer)) \<noteq> PASS
   \<and> taIssues (fst (checkRequirements exampleEnv (sectionWith False hiddenPolicy) visiblePlayer)) \<noteq> []"
  using master_flag_ignored_by_evaluator by simp

section \<open>The checking step of a main section session\<close>

text \<open>
  C2, as the claim states it, fails: when the profile cannot be fetched, the handler
  stops the collector and takes the buttons off the message; the session is over.
\<close>

theorem unreachable_profile_stops_session:
  "getPlayerInfo exampleEnv (nameToVerify exampleSession) = None
   \<and> collector (onCollect ''cancel'' exampleEnv (guildDocWith (sectionWith True openPolicy))
        exampleSession CHECK_PROFILE_ID) = Stopped
   \<and> components (onCollect ''cancel'' exampleEnv (guildDocWith (sectionWith True openPolicy))
        exampleSession CHECK_PROFILE_ID) = []"
  by (simp add: onCollect_def input_defs CHECK_PROFILE_ID_def stopped_def)

text \<open>
  C2, amended. On a press of a button other than \<^emph>\<open>Cancel\<close>: when the profile cannot be
  fetched, the session reports it and ends (collector stopped, no buttons left).
  The other failures send the session back to wait for the proof (collector
  collecting, both buttons back), as long as the user can be messaged: the code is in
  no line of the description; the name history cannot be fetched; the evaluator's
  verdict is \<open>TRY_AGAIN\<close>, as it is when the exaltation record or the graveyard summary
  it needs cannot be fetched.
\<close>

theorem checking_without_profile_or_code:
  "customId \<noteq> cancelId \<longrightarrow>
     (getPlayerInfo e (nameToVerify s) = None \<longrightarrow>
        onCollect cancelId e guildDoc s customId
          = \<lparr>collector = Stopped, components = [], msgDeleted = False, report = ProfileUnreachable\<rparr>)
     \<and> (\<forall>d. getPlayerInfo e (nameToVerify s) = Some d
             \<and> \<not> list_ex (\<lambda>l. includes_str l (code s)) (description d) \<and> sendMsg e \<longrightarrow>
           onCollect cancelId e guildDoc s customId
             = \<lparr>collector = Collecting, components = [CheckProfileButton, CancelButton],
                msgDeleted = False, report = CodeNotFound\<rparr>)
     \<and> (\<forall>d. getPlayerInfo e (nameToVerify s) = Some d
             \<and> list_ex (\<lambda>l. includes_str l (code s)) (description d)
             \<and> getNameHistory e (nameToVerify s) = None \<and> sendMsg e \<longrightarrow>
           onCollect cancelId e guildDoc s customId
             = \<lparr>collector = Collecting, components = [CheckProfileButton, CancelButton],
                msgDeleted = False, report = NameHistoryUnreachable\<rparr>)
     \<and> (\<forall>d h. getPlayerInfo e (nameToVerify s) = Some d
             \<and> list_ex (\<lambda>l. includes_str l (code s)) (description d)
             \<and> getNameHistory e (nameToVerify s) = Some h
             \<and> findBlacklisted (blacklistedUsers guildDoc) (name d # h @ allAssociatedNames s) = None
             \<and> conclusion (fst (checkRequirements e (getMainSection guildDoc) d)) = TRY_AGAIN
             \<and> sendMsg e \<longrightarrow>
           onCollect cancelId e guildDoc s customId
             = \<lparr>collector = Collecting, components = [CheckProfileButton, CancelButton],
                msgDeleted = False,
                report = RequirementsTryAgain
                           (taIssues (fst (checkRequirements e (getMainSection guildDoc) d)))\<rparr>)"
  by (simp add: onCollect_def stopped_def retry_def Let_def)

theorem checking_without_profile_or_code_witness:
  "onCollect ''cancel'' exampleEnv (guildDocWith (sectionWith True openPolicy)) exampleSession CHECK_PROFILE_ID
     = \<lparr>collector = Stopped, components = [], msgDeleted = False, report = ProfileUnreachable\<rparr>
   \<and> onCollect ''cancel'' (onlineEnv unmarkedPlayer)
        (guildDocWith (sectionWith True openPolicy)) exampleSession CHECK_PROFILE_ID
     = \<lparr>collector = Collecting, components = [CheckProfileButton, CancelButton],
        msgDeleted = False, report = CodeNotFound\<rparr>
   \<and> onCollect ''cancel'' (onlineEnv examplePlayer)
        (guildDocWith (sectionWith True exaltPolicy)) exampleSession CHECK_PROFILE_ID
     = \<lparr>collector = Collecting, components = [CheckProfileButton, CancelButton],
        msgDeleted = False,
        report = RequirementsTryAgain
                   [\<lparr>key = ''Exaltation Information Private'', info = ExaltationPrivate\<rparr>]\<rparr>"
  using checking_without_profile_or_code
          [of CHECK_PROFILE_ID "''cancel''" exampleEnv exampleSession
              "guildDocWith (sectionWith True openPolicy)"]
        checking_without_profile_or_code
          [of CHECK_PROFILE_ID "''cancel''" "onlineEnv unmarkedPlayer" exampleSession
              "guildDocWith (sectionWith True openPolicy)"]
        checking_without_profile_or_code
          [of CHECK_PROFILE_ID "''cancel''" "onlineEnv examplePlayer" exampleSession
              "guildDocWith (sectionWith True exaltPolicy)"]
  by (simp add: eval_defs input_defs onCollect_def CHECK_PROFILE_ID_def findBlacklisted_def
        retry_def startsWith_def)

section \<open>Exaltations\<close>

lemma stat_keys_member: "s \<in> set SHORT_STAT_KEYS"
  by (cases s) (simp_all add: SHORT_STAT_KEYS_def)

lemma stat_keys_all: "set SHORT_STAT_KEYS = UNIV"
  using stat_keys_member by blast

lemma entryPasses_iff: "entryPasses m e \<longleftrightarrow> (\<forall>s. m s \<le> exaltationStats e s)"
  by (simp add: entryPasses_def list_all_iff stat_keys_all not_less)

lemma onOneCharLoop_eq:
  "onOneCharLoop m es = (if \<exists>e \<in> set es. entryPasses m e then (\<lambda>k. 0) else m)"
  by (induction es) auto

lemma sumLoop_eq: "sumLoop m es s = m s - sum_list (map (\<lambda>e. exaltationStats e s) es)"
  unfolding sumLoop_def by (induction es arbitrary: m) simp_all

lemma notMet_empty:
  "notMetExaltations ex d = [] \<longleftrightarrow> (\<forall>s. remainingExalt ex d s \<le> 0)"
  by (simp add: notMetExaltations_def filter_empty_conv stat_keys_all not_less)

text \<open>
  C6, as the claim states it, fails: with \<open>onOneChar\<close> set, no minimum above zero and
  an exaltation record without any character, nothing is unmet and the evaluator
  records no issue, although no single character meets the minimums: there is none.
\<close>

theorem no_positive_minimum_needs_no_character:
  "ex_onOneChar (onOneCharPolicy zeroStats)
   \<and> exaltations noExaltations = []
   \<and> notMetExaltations (onOneCharPolicy zeroStats) noExaltations = []
   \<and> fst (checkRequirements (exaltEnv noExaltations)
        (sectionWith True (openPolicy\<lparr>vr_exaltations := onOneCharPolicy zeroStats\<rparr>)) examplePlayer)
      = initialResult examplePlayer"
  by (simp add: eval_defs input_defs)

text \<open>
  C6, amended. With \<open>onOneChar\<close> set, no statistic is left unmet if and only if some
  single character reaches every minimum, or no minimum is above zero. With
  \<open>onOneChar\<close> unset, no statistic is left unmet if and only if every minimum is
  reached by the sum over all characters. Five attack and five defense required:
  one character with five attack and another with five defense leave both unmet
  under \<open>onOneChar\<close>, and nothing unmet when summed; a character with both leaves
  nothing unmet under \<open>onOneChar\<close>.
\<close>

theorem exaltation_modes:
  "(ex_onOneChar ex \<longrightarrow>
      (notMetExaltations ex d = [] \<longleftrightarrow>
         (\<exists>e \<in> set (exaltations d). \<forall>s. ex_minimum ex s \<le> exaltationStats e s)
         \<or> (\<forall>s. ex_minimum ex s \<le> 0)))
   \<and> (\<not> ex_onOneChar ex \<longrightarrow>
      (notMetExaltations ex d = [] \<longleftrightarrow>
         (\<forall>s. ex_minimum ex s \<le> (\<Sum>e\<leftarrow>exaltations d. exaltationStats e s))))
   \<and> notMetExaltations (onOneCharPolicy attDef) \<lparr>exaltations = [attOnly, defOnly]\<rparr> = [Att, Def]
   \<and> notMetExaltations (onOneCharPolicy attDef) \<lparr>exaltations = [attOnly, attAndDef]\<rparr> = []
   \<and> notMetExaltations (summedPolicy attDef) \<lparr>exaltations = [attOnly, defOnly]\<rparr> = []"
proof (intro conjI impI)
  assume "ex_onOneChar ex"
  then show "notMetExaltations ex d = [] \<longleftrightarrow>
         (\<exists>e \<in> set (exaltations d). \<forall>s. ex_minimum ex s \<le> exaltationStats e s)
         \<or> (\<forall>s. ex_minimum ex s \<le> 0)"
    by (auto simp: notMet_empty remainingExalt_def onOneCharLoop_eq entryPasses_iff)
next
  assume "\<not> ex_onOneChar ex"
  then show "notMetExaltations ex d = [] \<longleftrightarrow>
         (\<forall>s. ex_minimum ex s \<le> (\<Sum>e\<leftarrow>exaltations d. exaltationStats e s))"
    by (simp add: notMet_empty remainingExalt_def sumLoop_eq)
qed (simp_all add: eval_defs input_defs)

theorem exaltation_modes_witness:
  "ex_onOneChar (onOneCharPolicy attDef) \<and> \<not> ex_onOneChar (summedPolicy attDef)
   \<and> notMetExaltations (onOneCharPolicy attDef) \<lparr>exaltations = [attOnly, defOnly]\<rparr> \<noteq> []
   \<and> notMetExaltations (summedPolicy attDef) \<lparr>exaltations = [attOnly, defOnly]\<rparr> = []"
  using exaltation_modes [of "onOneCharPolicy attDef" "\<lparr>exaltations = [attOnly, defOnly]\<rparr>"]
        exaltation_modes [of "summedPolicy attDef" "\<lparr>exaltations = [attOnly, defOnly]\<rparr>"]
  by (simp add: input_defs)

section \<open>The moderator's answer to a manual verification entry\<close>

text \<open>
  C9, as the claim states it, fails: when the section has no verified role and the
  user has left the guild, the answer is refused but the user's entries are deleted.
\<close>

theorem departed_user_entry_purged:
  "\<not> hasCachedRole goneEnv (verifiedRoleId (getMainSection (guildDocWith (sectionWith True openPolicy))))
   \<and> manualVerificationEntries (guildDocWith (sectionWith True openPolicy)) = [exampleEntry]
   \<and> \<not> returned (acknowledgeManualVerifyRes goneEnv (guildDocWith (sectionWith True openPolicy))
        exampleEntry MANUAL_VERIFY_ACCEPT_ID)
   \<and> stored (acknowledgeManualVerifyRes goneEnv (guildDocWith (sectionWith True openPolicy))
        exampleEntry MANUAL_VERIFY_ACCEPT_ID) = []"
  by (simp add: acknowledgeManualVerifyRes_def input_defs hasCachedRole_def)

text \<open>
  C9, amended. For an entry whose user is still a member of the guild and whose
  section is found (or is the main section): when the verified role of the section does
  not exist, the answer returns false and the stored entries are what they were;
  when it exists and the answer is accept or deny, the answer returns true and the
  stored entries are the former ones without those of this user and section, none
  of which remains.
\<close>

theorem acknowledge_refused_or_entry_removed:
  assumes "userId manualVerifyRes \<in> set (guildMembers e)"
    and "find (\<lambda>x. uniqueIdentifier x = sectionId manualVerifyRes) (guildSections guildDoc) = Some section
         \<or> (find (\<lambda>x. uniqueIdentifier x = sectionId manualVerifyRes) (guildSections guildDoc) = None
            \<and> sectionId manualVerifyRes = ''MAIN'' \<and> section = getMainSection guildDoc)"
  shows "(\<not> hasCachedRole e (verifiedRoleId section) \<longrightarrow>
            \<not> returned (acknowledgeManualVerifyRes e guildDoc manualVerifyRes responseId)
            \<and> stored (acknowledgeManualVerifyRes e guildDoc manualVerifyRes responseId)
                = manualVerificationEntries guildDoc)
       \<and> (hasCachedRole e (verifiedRoleId section)
            \<and> (responseId = MANUAL_VERIFY_ACCEPT_ID \<or> responseId = MANUAL_VERIFY_DENY_ID) \<longrightarrow>
            returned (acknowledgeManualVerifyRes e guildDoc manualVerifyRes responseId)
            \<and> stored (acknowledgeManualVerifyRes e guildDoc manualVerifyRes responseId)
                = filter (\<lambda>x. \<not> (sectionId x = sectionId manualVerifyRes \<and> userId x = userId manualVerifyRes))
                    (manualVerificationEntries guildDoc)
            \<and> (\<forall>x \<in> set (stored (acknowledgeManualVerifyRes e guildDoc manualVerifyRes responseId)).
                  \<not> (userId x = userId manualVerifyRes \<and> sectionId x = sectionId manualVerifyRes)))"
  using assms
  by (auto simp: acknowledgeManualVerifyRes_def Let_def MANUAL_VERIFY_ACCEPT_ID_def
        MANUAL_VERIFY_DENY_ID_def MANUAL_VERIFY_MODMAIL_ID_def)

theorem acknowledge_refused_or_entry_removed_witness:
  "stored (acknowledgeManualVerifyRes noRoleEnv (guildDocWith (sectionWith True openPolicy))
        exampleEntry MANUAL_VERIFY_ACCEPT_ID) = [exampleEntry]
   \<and> \<not> returned (acknowledgeManualVerifyRes noRoleEnv (guildDocWith (sectionWith True openPolicy))
        exampleEntry MANUAL_VERIFY_ACCEPT_ID)
   \<and> stored (acknowledgeManualVerifyRes exampleEnv (guildDocWith (sectionWith True openPolicy))
        exampleEntry MANUAL_VERIFY_DENY_ID) = []
   \<and> returned (acknowledgeManualVerifyRes exampleEnv (guildDocWith (sectionWith True openPolicy))
        exampleEntry MANUAL_VERIFY_DENY_ID)"
  using acknowledge_refused_or_entry_removed
          [of exampleEntry noRoleEnv "guildDocWith (sectionWith True openPolicy)"
              "sectionWith True openPolicy" MANUAL_VERIFY_ACCEPT_ID]
        acknowledge_refused_or_entry_removed
          [of exampleEntry exampleEnv "guildDocWith (sectionWith True openPolicy)"
              "sectionWith True openPolicy" MANUAL_VERIFY_DENY_ID]
  by (simp add: input_defs hasCachedRole_def MANUAL_VERIFY_DENY_ID_def MANUAL_VERIFY_ACCEPT_ID_def)

end
